theory Spec2Isabelle
  imports Main "HOL-Library.Sublist"
begin

section \<open>Data model\<close>

text \<open>
  The program is \<^verbatim>\<open>PubSubToGCS_Compression.py\<close>: a streaming pipeline that reads
  Pub/Sub payloads, windows them, decodes them, keys them with a random shard id, groups
  them and writes every (window, shard) batch to one storage object.

  Python \<^verbatim>\<open>bytes\<close> are lists of 8-bit characters. A Python \<^verbatim>\<open>str\<close> is
  represented by its UTF-8 encoding: every \<^verbatim>\<open>str\<close> of this program comes out of
  \<^verbatim>\<open>bytes.decode("utf-8")\<close> or is ASCII, so \<^verbatim>\<open>str.encode()\<close> is the identity
  on the representation and \<^verbatim>\<open>decode\<close> is the validity check.
\<close>

type_synonym bytes = string

datatype error = ValueError | UnicodeDecodeError | OverflowError | SystemExit

text \<open>A Beam \<^verbatim>\<open>Timestamp\<close> or \<^verbatim>\<open>Duration\<close> is a number of microseconds.\<close>

type_synonym micros = int

record interval_window =
  win_start :: micros
  win_end :: micros

record datetime =
  year :: int
  month :: int
  day :: int
  hour :: int
  minute :: int
  second :: int
  microsecond :: int

record WriteToGCS =
  output_gcs_directory :: string
  compression_method :: string

text \<open>What \<^verbatim>\<open>GcsIO().open(filename, mode, mime_type)\<close> and the writes to it create.\<close>

record gcs_object =
  filename :: string
  mime_type :: string
  content :: bytes

section \<open>Library functions the program calls\<close>

subsection \<open>\<^verbatim>\<open>str(int)\<close> and zero padding\<close>

definition digit_char :: "nat \<Rightarrow> char" where
  "digit_char d = char_of (48 + d)"

fun str_nat :: "nat \<Rightarrow> string" where
  "str_nat n = (if n < 10 then [digit_char n] else str_nat (n div 10) @ [digit_char (n mod 10)])"

declare str_nat.simps [simp del]

definition str_int :: "int \<Rightarrow> string" where
  "str_int i = (if i < 0 then CHR ''-'' # str_nat (nat (- i)) else str_nat (nat i))"

definition zero_pad :: "nat \<Rightarrow> string \<Rightarrow> string" where
  "zero_pad w s = replicate (w - length s) CHR ''0'' @ s"

subsection \<open>\<^verbatim>\<open>Timestamp.to_utc_datetime\<close> and \<^verbatim>\<open>datetime.strftime\<close>\<close>

text \<open>
  The proleptic Gregorian calendar of \<^verbatim>\<open>datetime\<close>: the civil date of a day number
  counted from 1970-01-01, by 400-year eras that start on a 1st of March.
\<close>

definition civil_from_days :: "int \<Rightarrow> int \<times> int \<times> int" where
  "civil_from_days days =
     (let z = days + 719468;
          era = z div 146097;
          doe = z - era * 146097;
          yoe = (doe - doe div 1460 + doe div 36524 - doe div 146096) div 365;
          y = yoe + era * 400;
          doy = doe - (365 * yoe + yoe div 4 - yoe div 100);
          mp = (5 * doy + 2) div 153;
          d = doy - (153 * mp + 2) div 5 + 1;
          m = (if mp < 10 then mp + 3 else mp - 9)
      in (if m \<le> 2 then y + 1 else y, m, d))"

text \<open>
  \<^verbatim>\<open>datetime(1970, 1, 1) + timedelta(microseconds=micros)\<close>. \<^verbatim>\<open>datetime\<close> holds the
  years 1 to 9999 and raises \<^verbatim>\<open>OverflowError\<close> outside them.
\<close>

definition datetime_min :: micros where
  "datetime_min = - 62135596800000000"

definition datetime_max :: micros where
  "datetime_max = 253402300799999999"

definition to_utc_datetime :: "micros \<Rightarrow> error + datetime" where
  "to_utc_datetime t =
     (if t < datetime_min \<or> datetime_max < t then Inl OverflowError
      else
        (let secs = t div 1000000;
             sod = secs mod 86400;
             (y, m, d) = civil_from_days (secs div 86400)
         in Inr \<lparr>year = y, month = m, day = d,
                 hour = sod div 3600, minute = sod div 60 mod 60, second = sod mod 60,
                 microsecond = t mod 1000000\<rparr>))"

text \<open>
  The directives of \<^verbatim>\<open>strftime\<close> the program uses, zero-padded as the Python
  documentation gives them (some C libraries do not pad \<^verbatim>\<open>%Y\<close> before the year 1000);
  any other directive is left as it is.
\<close>

definition directive :: "datetime \<Rightarrow> char \<Rightarrow> string" where
  "directive dt c =
     (if c = CHR ''Y'' then zero_pad 4 (str_int (year dt))
      else if c = CHR ''m'' then zero_pad 2 (str_int (month dt))
      else if c = CHR ''d'' then zero_pad 2 (str_int (day dt))
      else if c = CHR ''H'' then zero_pad 2 (str_int (hour dt))
      else if c = CHR ''M'' then zero_pad 2 (str_int (minute dt))
      else [CHR ''%'', c])"

fun strftime :: "datetime \<Rightarrow> string \<Rightarrow> string" where
  "strftime dt [] = []"
| "strftime dt [c] = [c]"
| "strftime dt (c # d # fmt) =
     (if c = CHR ''%'' then directive dt d @ strftime dt fmt else c # strftime dt (d # fmt))"

subsection \<open>\<^verbatim>\<open>gzip\<close>, \<^verbatim>\<open>zlib\<close> and \<^verbatim>\<open>bz2\<close>\<close>

text \<open>
  The compressors are library code. The model takes them as a record of functions: the
  single-shot \<^verbatim>\<open>zlib.compress\<close> and \<^verbatim>\<open>bz2.compress\<close> with their inverses, and for
  gzip the part of a member that follows the modification time (extra flags, operating
  system, DEFLATE stream, CRC-32 and size) with the function that reads it back.
\<close>

record codec_lib =
  gz_flags :: char
  gz_rest :: "bytes \<Rightarrow> bytes"
  gz_unrest :: "bytes \<Rightarrow> bytes option"
  zlib_compress :: "bytes \<Rightarrow> bytes"
  zlib_decompress :: "bytes \<Rightarrow> bytes option"
  bz2_compress :: "bytes \<Rightarrow> bytes"
  bz2_decompress :: "bytes \<Rightarrow> bytes option"

text \<open>\<^verbatim>\<open>write32u\<close>: an unsigned 32-bit number, least significant byte first.\<close>

definition write32u :: "int \<Rightarrow> bytes" where
  "write32u n = [char_of n, char_of (n div 256), char_of (n div 65536), char_of (n div 16777216)]"

text \<open>
  A gzip member starts with the magic bytes 1f 8b, the method 8 (DEFLATE), the flags and
  the modification time. \<^verbatim>\<open>GzipFile(fileobj=f, mode="wb")\<close> is given no \<^verbatim>\<open>mtime\<close>, so
  it writes the current time, \<^verbatim>\<open>int(time.time())\<close>, which fits 32 bits until the year 2106.
\<close>

definition gzip_header :: "codec_lib \<Rightarrow> int \<Rightarrow> bytes" where
  "gzip_header L mtime = [CHR 0x1F, CHR 0x8B, CHR 0x08, gz_flags L] @ write32u mtime"

text \<open>
  \<^verbatim>\<open>GzipFile\<close> as the state of the file: the bytes written to it so far. Closing it
  (leaving the \<^verbatim>\<open>with\<close> block) leaves one member in the underlying file.
\<close>

definition GzipFile_write :: "bytes \<Rightarrow> bytes \<Rightarrow> bytes" where
  "GzipFile_write gz_f data = gz_f @ data"

definition GzipFile_close :: "codec_lib \<Rightarrow> int \<Rightarrow> bytes \<Rightarrow> bytes" where
  "GzipFile_close L mtime gz_f = gzip_header L mtime @ gz_rest L gz_f"

definition gzip_decompress :: "codec_lib \<Rightarrow> bytes \<Rightarrow> bytes option" where
  "gzip_decompress L bs =
     (if 8 \<le> length bs \<and> take 3 bs = [CHR 0x1F, CHR 0x8B, CHR 0x08]
      then gz_unrest L (drop 8 bs) else None)"

section \<open>\<^verbatim>\<open>WriteToGCS.process\<close>\<close>

definition newline :: char where
  "newline = CHR 0x0A"

text \<open>\<^verbatim>\<open>f"{message_body}\n".encode()\<close>\<close>

definition encode_line :: "string \<Rightarrow> bytes" where
  "encode_line message_body = message_body @ [newline]"

text \<open>
  The body of \<^verbatim>\<open>process\<close> after the file name is built: the \<^verbatim>\<open>if\<close>/\<^verbatim>\<open>elif\<close> chain
  that extends the name and picks the MIME type, and the one that writes the batch.
  \<^verbatim>\<open>now\<close> is the clock the gzip header reads.
\<close>

definition write_batch :: "codec_lib \<Rightarrow> string \<Rightarrow> int \<Rightarrow> string \<Rightarrow> string list \<Rightarrow> gcs_object" where
  "write_batch L method now filename0 batch =
     (let (filename, mime_type) =
            (if method = ''gzip'' then (filename0 @ ''.gz'', ''application/gzip'')
             else if method = ''deflate'' then (filename0 @ ''.zlib'', ''application/zlib'')
             else if method = ''bz2'' then (filename0 @ ''.bz2'', ''application/x-bzip2'')
             else (filename0, ''application/json''));
          f = (if method = ''gzip''
               then GzipFile_close L now (foldl (\<lambda>gz_f message_body. GzipFile_write gz_f (encode_line message_body)) [] batch)
               else if method = ''deflate''
               then zlib_compress L (concat (map encode_line batch))
               else if method = ''bz2''
               then bz2_compress L (concat (map encode_line batch))
               else foldl (\<lambda>f message_body. f @ encode_line message_body) [] batch)
      in \<lparr>filename = filename, mime_type = mime_type, content = f\<rparr>)"

definition process :: "codec_lib \<Rightarrow> WriteToGCS \<Rightarrow> int \<Rightarrow> interval_window \<Rightarrow> int \<times> string list \<Rightarrow> error + gcs_object" where
  "process L self now window key_value =
     (case to_utc_datetime (win_start window) of
        Inl e \<Rightarrow> Inl e
      | Inr window_start_dt \<Rightarrow>
          (let date_dir = strftime window_start_dt ''%Y/%m/%d'';
               ts_format = ''%H:%M'';
               window_start = strftime window_start_dt ts_format
           in case to_utc_datetime (win_end window) of
                Inl e \<Rightarrow> Inl e
              | Inr window_end_dt \<Rightarrow>
                  (let window_end = strftime window_end_dt ts_format;
                       (shard_id, batch) = key_value;
                       suffix = ''json'';
                       filename = output_gcs_directory self @ ''/'' @ date_dir @ ''/logs-'' @ window_start
                                    @ ''-'' @ window_end @ ''-'' @ str_int shard_id @ ''.'' @ suffix
                   in Inr (write_batch L (compression_method self) now filename batch))))"

section \<open>The stages of the pipeline\<close>

text \<open>
  An element of a \<^verbatim>\<open>PCollection\<close>: its value, its event time and its window.
  \<^verbatim>\<open>None\<close> is the global window, where every element is before \<^verbatim>\<open>WindowInto\<close>.
\<close>

record 'a element =
  elem_value :: 'a
  elem_timestamp :: micros
  elem_window :: "interval_window option"

text \<open>Where a run fails: while the pipeline is built, on an element, or on a batch.\<close>

datatype failure = Startup error | PerRecord error | PerBatch error

subsection \<open>\<^verbatim>\<open>io.ReadFromPubSub\<close>\<close>

text \<open>Each message is its payload, stamped with its publish time, in the global window.\<close>

definition ReadFromPubSub :: "(bytes \<times> micros) list \<Rightarrow> bytes element list" where
  "ReadFromPubSub msgs =
     map (\<lambda>(payload, t). \<lparr>elem_value = payload, elem_timestamp = t, elem_window = None\<rparr>) msgs"

subsection \<open>\<^verbatim>\<open>WindowInto(FixedWindows(size))\<close>\<close>

text \<open>
  Modelled from the spec: \<^verbatim>\<open>FixedWindows\<close> belongs to Apache Beam and is not under
  \<^verbatim>\<open>src/\<close>. Section 7 of the spec makes a non-positive window size an error of the
  configuration, raised while the pipeline is built; the size is a number of seconds.
\<close>

definition FixedWindows :: "int \<Rightarrow> error + micros" where
  "FixedWindows sz = (if sz \<le> 0 then Inl ValueError else Inr (sz * 1000000))"

text \<open>
  Modelled from the spec: the window of a timestamp, section 4.1,
  \<^verbatim>\<open>[floor(t/window_size_sec)*window_size_sec, +window_size_sec)\<close>, on microseconds.
\<close>

definition assign :: "micros \<Rightarrow> micros \<Rightarrow> interval_window" where
  "assign sz t = \<lparr>win_start = (t div sz) * sz, win_end = (t div sz) * sz + sz\<rparr>"

definition WindowInto :: "micros \<Rightarrow> 'a element list \<Rightarrow> 'a element list" where
  "WindowInto sz pcoll = map (\<lambda>e. e\<lparr>elem_window := Some (assign sz (elem_timestamp e))\<rparr>) pcoll"

subsection \<open>\<^verbatim>\<open>DecodeMessage\<close>\<close>

text \<open>
  \<^verbatim>\<open>element.decode("utf-8")\<close> raises \<^verbatim>\<open>UnicodeDecodeError\<close> unless the payload is
  well-formed UTF-8: no stray or missing continuation byte, no overlong form, no
  surrogate, nothing above U+10FFFF.
\<close>

definition in_range :: "nat \<Rightarrow> nat \<Rightarrow> char \<Rightarrow> bool" where
  "in_range lo hi c \<longleftrightarrow> lo \<le> of_char c \<and> of_char c \<le> hi"

fun utf8_valid :: "bytes \<Rightarrow> bool" where
  "utf8_valid [] = True"
| "utf8_valid [a] = in_range 0 0x7F a"
| "utf8_valid [a, b] =
     (if in_range 0 0x7F a then utf8_valid [b]
      else in_range 0xC2 0xDF a \<and> in_range 0x80 0xBF b)"
| "utf8_valid [a, b, c] =
     (if in_range 0 0x7F a then utf8_valid [b, c]
      else if in_range 0xC2 0xDF a then in_range 0x80 0xBF b \<and> utf8_valid [c]
      else in_range 0xE0 0xEF a
         \<and> in_range (if a = CHR 0xE0 then 0xA0 else 0x80) (if a = CHR 0xED then 0x9F else 0xBF) b
         \<and> in_range 0x80 0xBF c)"
| "utf8_valid (a # b # c # d # bs) =
     (if in_range 0 0x7F a then utf8_valid (b # c # d # bs)
      else if in_range 0xC2 0xDF a then in_range 0x80 0xBF b \<and> utf8_valid (c # d # bs)
      else if in_range 0xE0 0xEF a
      then in_range (if a = CHR 0xE0 then 0xA0 else 0x80) (if a = CHR 0xED then 0x9F else 0xBF) b
         \<and> in_range 0x80 0xBF c \<and> utf8_valid (d # bs)
      else in_range 0xF0 0xF4 a
         \<and> in_range (if a = CHR 0xF0 then 0x90 else 0x80) (if a = CHR 0xF4 then 0x8F else 0xBF) b
         \<and> in_range 0x80 0xBF c \<and> in_range 0x80 0xBF d \<and> utf8_valid bs)"

definition decode :: "bytes \<Rightarrow> error + string" where
  "decode payload = (if utf8_valid payload then Inr payload else Inl UnicodeDecodeError)"

text \<open>\<^verbatim>\<open>ParDo(DecodeMessage())\<close>: every element through \<^verbatim>\<open>DecodeMessage.process\<close>.\<close>

fun ParDo_DecodeMessage :: "bytes element list \<Rightarrow> error + string element list" where
  "ParDo_DecodeMessage [] = Inr []"
| "ParDo_DecodeMessage (e # es) =
     (case decode (elem_value e) of
        Inl err \<Rightarrow> Inl err
      | Inr s \<Rightarrow>
          (case ParDo_DecodeMessage es of
             Inl err \<Rightarrow> Inl err
           | Inr ss \<Rightarrow> Inr (e\<lparr>elem_value := s\<rparr> # ss)))"

subsection \<open>\<^verbatim>\<open>WithKeys(lambda _: random.randint(0, self.num_shards - 1))\<close>\<close>

text \<open>
  \<^verbatim>\<open>random.randint(a, b)\<close> raises \<^verbatim>\<open>ValueError\<close> on an empty range and returns
  \<^verbatim>\<open>a + randbelow(b - a + 1)\<close> otherwise. The generator is an input of the model:
  \<^verbatim>\<open>r\<close> is what it yields at this call, reduced to the range.
\<close>

definition randint :: "int \<Rightarrow> int \<Rightarrow> int \<Rightarrow> error + int" where
  "randint a b r = (if b < a then Inl ValueError else Inr (a + r mod (b - a + 1)))"

text \<open>The fields of \<^verbatim>\<open>__init__\<close>; \<^verbatim>\<open>window_size\<close> is \<^verbatim>\<open>int(window_size)\<close>, a number of seconds.\<close>

record GroupMessagesByFixedWindows =
  window_size :: int
  num_shards :: int

text \<open>The key function: it drops its argument.\<close>

definition add_key :: "GroupMessagesByFixedWindows \<Rightarrow> int \<Rightarrow> 'a \<Rightarrow> error + int" where
  "add_key self r _ = randint 0 (num_shards self - 1) r"

text \<open>The \<^verbatim>\<open>i\<close>-th element of the collection is keyed with the \<^verbatim>\<open>i\<close>-th draw.\<close>

fun WithKeys :: "(int \<Rightarrow> 'a \<Rightarrow> error + 'k) \<Rightarrow> (nat \<Rightarrow> int) \<Rightarrow> nat \<Rightarrow> 'a element list
    \<Rightarrow> error + ('k \<times> 'a) element list" where
  "WithKeys fn rng i [] = Inr []"
| "WithKeys fn rng i (e # es) =
     (case fn (rng i) (elem_value e) of
        Inl err \<Rightarrow> Inl err
      | Inr k \<Rightarrow>
          (case WithKeys fn rng (Suc i) es of
             Inl err \<Rightarrow> Inl err
           | Inr kes \<Rightarrow>
               Inr (\<lparr>elem_value = (k, elem_value e), elem_timestamp = elem_timestamp e,
                      elem_window = elem_window e\<rparr> # kes)))"

subsection \<open>\<^verbatim>\<open>GroupByKey\<close>\<close>

text \<open>
  One group for every (window, key) pair that occurs, in the order of first occurrence,
  holding the values of the pair in the order they arrived.
\<close>

definition group_key :: "('k \<times> 'v) element \<Rightarrow> interval_window option \<times> 'k" where
  "group_key e = (elem_window e, fst (elem_value e))"

function GroupByKey :: "('k \<times> 'v) element list \<Rightarrow> (interval_window option \<times> 'k \<times> 'v list) list" where
  "GroupByKey [] = []"
| "GroupByKey (e # es) =
     (elem_window e, fst (elem_value e),
        snd (elem_value e) # map (\<lambda>x. snd (elem_value x)) (filter (\<lambda>x. group_key x = group_key e) es))
     # GroupByKey (filter (\<lambda>x. group_key x \<noteq> group_key e) es)"
  by pat_completeness auto
termination
  by (relation "measure length") (auto simp: less_Suc_eq_le)

subsection \<open>\<^verbatim>\<open>GroupMessagesByFixedWindows.expand\<close>\<close>

text \<open>
  The transforms are applied as \<^verbatim>\<open>expand\<close> chains them, each to the whole collection.
  A runner that fuses the stages takes the records one by one through all of them: when
  several records fail, the error it meets first can be that of an earlier record than
  the one reported here. The results agree whenever at most one kind of error occurs.
\<close>

definition expand :: "GroupMessagesByFixedWindows \<Rightarrow> (nat \<Rightarrow> int) \<Rightarrow> bytes element list
    \<Rightarrow> failure + (interval_window option \<times> int \<times> string list) list" where
  "expand self rng pcoll =
     (case FixedWindows (window_size self) of
        Inl e \<Rightarrow> Inl (Startup e)
      | Inr sz \<Rightarrow>
          (case ParDo_DecodeMessage (WindowInto sz pcoll) of
             Inl e \<Rightarrow> Inl (PerRecord e)
           | Inr decoded \<Rightarrow>
               (case WithKeys (add_key self) rng 0 decoded of
                  Inl e \<Rightarrow> Inl (PerRecord e)
                | Inr keyed \<Rightarrow> Inr (GroupByKey keyed))))"

subsection \<open>\<^verbatim>\<open>ParDo(WriteToGCS(...))\<close> and \<^verbatim>\<open>run\<close>\<close>

text \<open>
  Every group through \<^verbatim>\<open>WriteToGCS.process\<close>; the \<^verbatim>\<open>i\<close>-th call reads the clock
  \<^verbatim>\<open>clock i\<close>. The global window starts before the year 1, so \<^verbatim>\<open>to_utc_datetime\<close>
  raises on it.
\<close>

fun ParDo_WriteToGCS :: "codec_lib \<Rightarrow> WriteToGCS \<Rightarrow> (nat \<Rightarrow> int) \<Rightarrow> nat
    \<Rightarrow> (interval_window option \<times> int \<times> string list) list \<Rightarrow> error + gcs_object list" where
  "ParDo_WriteToGCS L self clock i [] = Inr []"
| "ParDo_WriteToGCS L self clock i ((w, key_value) # gs) =
     (case (case w of None \<Rightarrow> Inl OverflowError | Some window \<Rightarrow> process L self (clock i) window key_value) of
        Inl err \<Rightarrow> Inl err
      | Inr obj \<Rightarrow>
          (case ParDo_WriteToGCS L self clock (Suc i) gs of
             Inl err \<Rightarrow> Inl err
           | Inr objs \<Rightarrow> Inr (obj # objs)))"

text \<open>
  \<^verbatim>\<open>run\<close>: the objects written, in order, or the first failure. Building the pipeline
  checks nothing but what \<^verbatim>\<open>FixedWindows\<close> checks.
\<close>

definition run :: "codec_lib \<Rightarrow> (nat \<Rightarrow> int) \<Rightarrow> (nat \<Rightarrow> int) \<Rightarrow> (bytes \<times> micros) list
    \<Rightarrow> string \<Rightarrow> string \<Rightarrow> int \<Rightarrow> int \<Rightarrow> failure + gcs_object list" where
  "run L rng clock input_topic output_gcs_directory' compression_type window_interval_sec num_shards' =
     (case expand \<lparr>window_size = window_interval_sec, num_shards = num_shards'\<rparr> rng (ReadFromPubSub input_topic) of
        Inl f \<Rightarrow> Inl f
      | Inr groups \<Rightarrow>
          (case ParDo_WriteToGCS L \<lparr>output_gcs_directory = output_gcs_directory', compression_method = compression_type\<rparr> clock 0 groups of
             Inl e \<Rightarrow> Inl (PerBatch e)
           | Inr objs \<Rightarrow> Inr objs))"

text \<open>The storage: a write creates the object at its path or replaces the one there.\<close>

definition gcs_write :: "(string \<rightharpoonup> string \<times> bytes) \<Rightarrow> gcs_object \<Rightarrow> (string \<rightharpoonup> string \<times> bytes)" where
  "gcs_write store obj = store(filename obj \<mapsto> (mime_type obj, content obj))"

text \<open>
  The command line: \<^verbatim>\<open>--compression_type\<close> has a list of \<^verbatim>\<open>choices\<close>, and the parser
  exits on any other value; \<^verbatim>\<open>--window_interval_sec\<close> and \<^verbatim>\<open>--num_shards\<close> are
  \<^verbatim>\<open>type=int\<close>, with no bound.
\<close>

definition choices :: "string list" where
  "choices = [''gzip'', ''deflate'', ''uncompressed'', ''bz2'']"

definition main :: "codec_lib \<Rightarrow> (nat \<Rightarrow> int) \<Rightarrow> (nat \<Rightarrow> int) \<Rightarrow> (bytes \<times> micros) list
    \<Rightarrow> string \<Rightarrow> string \<Rightarrow> int \<Rightarrow> int \<Rightarrow> failure + gcs_object list" where
  "main L rng clock input_topic output_gcs_directory' compression_type window_interval_sec num_shards' =
     (if compression_type \<notin> set choices then Inl (Startup SystemExit)
      else run L rng clock input_topic output_gcs_directory' compression_type window_interval_sec num_shards')"

section \<open>What the specification compares the program with\<close>

text \<open>
  The path of section 4.5,
  \<^verbatim>\<open>{output_directory}/{YYYY}/{MM}/{DD}/logs-{window_start:HH:MM}-{window_end:HH:MM}-{shard_id}.json[{suffix}]\<close>,
  with the date of the window's start.
\<close>

definition spec_path :: "string \<Rightarrow> datetime \<Rightarrow> datetime \<Rightarrow> int \<Rightarrow> string \<Rightarrow> string" where
  "spec_path output_directory s e shard_id sfx =
     output_directory @ ''/'' @ zero_pad 4 (str_int (year s)) @ ''/'' @ zero_pad 2 (str_int (month s))
       @ ''/'' @ zero_pad 2 (str_int (day s))
       @ ''/logs-'' @ zero_pad 2 (str_int (hour s)) @ '':'' @ zero_pad 2 (str_int (minute s))
       @ ''-'' @ zero_pad 2 (str_int (hour e)) @ '':'' @ zero_pad 2 (str_int (minute e))
       @ ''-'' @ str_int shard_id @ ''.json'' @ sfx"

text \<open>
  Splitting on newlines: every newline ends a line; what follows the last newline is a
  line if it is not empty.
\<close>

fun split_acc :: "string \<Rightarrow> string \<Rightarrow> string list" where
  "split_acc acc [] = (if acc = [] then [] else [rev acc])"
| "split_acc acc (c # cs) =
     (if c = newline then rev acc # split_acc [] cs else split_acc (c # acc) cs)"

definition split_lines :: "string \<Rightarrow> string list" where
  "split_lines s = split_acc [] s"

text \<open>The decompression that corresponds to a compression method.\<close>

definition decompress :: "codec_lib \<Rightarrow> string \<Rightarrow> bytes \<Rightarrow> bytes option" where
  "decompress L method bs =
     (if method = ''gzip'' then gzip_decompress L bs
      else if method = ''deflate'' then zlib_decompress L bs
      else if method = ''bz2'' then bz2_decompress L bs
      else Some bs)"

text \<open>What the libraries promise: decompressing undoes compressing.\<close>

definition lossless :: "codec_lib \<Rightarrow> bool" where
  "lossless L \<longleftrightarrow>
     (\<forall>x. gz_unrest L (gz_rest L x) = Some x)
   \<and> (\<forall>x. zlib_decompress L (zlib_compress L x) = Some x)
   \<and> (\<forall>x. bz2_decompress L (bz2_compress L x) = Some x)"

text \<open>The simplest lossless codecs store the data as it is; the examples use them.\<close>

definition stored :: codec_lib where
  "stored = \<lparr>gz_flags = CHR 0x00, gz_rest = (\<lambda>x. x), gz_unrest = Some,
              zlib_compress = (\<lambda>x. x), zlib_decompress = Some,
              bz2_compress = (\<lambda>x. x), bz2_decompress = Some\<rparr>"

text \<open>A window contains the timestamps from its start up to, not including, its end.\<close>

definition contains :: "interval_window \<Rightarrow> micros \<Rightarrow> bool" where
  "contains w t \<longleftrightarrow> win_start w \<le> t \<and> t < win_end w"

text \<open>The \<^verbatim>\<open>k\<close>-th window of the tiling of the timeline by windows of one size.\<close>

definition tile :: "micros \<Rightarrow> int \<Rightarrow> interval_window" where
  "tile sz k = \<lparr>win_start = k * sz, win_end = k * sz + sz\<rparr>"

text \<open>
  The order of section 2: Decoder, Window Assigner, Shard Key Generator, Window
  Aggregator. The traces hold the collection after the first and after the second stage.
\<close>

definition reference_expand :: "GroupMessagesByFixedWindows \<Rightarrow> (nat \<Rightarrow> int) \<Rightarrow> bytes element list
    \<Rightarrow> failure + (interval_window option \<times> int \<times> string list) list" where
  "reference_expand self rng pcoll =
     (case FixedWindows (window_size self) of
        Inl e \<Rightarrow> Inl (Startup e)
      | Inr sz \<Rightarrow>
          (case ParDo_DecodeMessage pcoll of
             Inl e \<Rightarrow> Inl (PerRecord e)
           | Inr decoded \<Rightarrow>
               (case WithKeys (add_key self) rng 0 (WindowInto sz decoded) of
                  Inl e \<Rightarrow> Inl (PerRecord e)
                | Inr keyed \<Rightarrow> Inr (GroupByKey keyed))))"

definition reference_trace :: "micros \<Rightarrow> bytes element list \<Rightarrow> (error + string element list) list" where
  "reference_trace sz pcoll =
     [ParDo_DecodeMessage pcoll,
      (case ParDo_DecodeMessage pcoll of Inl e \<Rightarrow> Inl e | Inr decoded \<Rightarrow> Inr (WindowInto sz decoded))]"

text \<open>The same two collections in \<^verbatim>\<open>expand\<close>, as the program orders its stages.\<close>

definition expand_trace :: "micros \<Rightarrow> bytes element list \<Rightarrow> (error + string element list) list" where
  "expand_trace sz pcoll =
     [Inr (WindowInto sz pcoll), ParDo_DecodeMessage (WindowInto sz pcoll)]"

section \<open>The batch encoder and the object writer\<close>

lemma foldl_append_lines:
  "foldl (\<lambda>f message_body. f @ encode_line message_body) acc batch = acc @ concat (map encode_line batch)"
  by (induction batch arbitrary: acc) simp_all

lemma foldl_GzipFile_write:
  "foldl (\<lambda>gz_f message_body. GzipFile_write gz_f (encode_line message_body)) acc batch
     = acc @ concat (map encode_line batch)"
  by (induction batch arbitrary: acc) (simp_all add: GzipFile_write_def)

lemma to_utc_datetime_in_range:
  "datetime_min \<le> t \<Longrightarrow> t \<le> datetime_max \<Longrightarrow> \<exists>dt. to_utc_datetime t = Inr dt"
  by (simp add: to_utc_datetime_def Let_def split: prod.splits)

lemma to_utc_datetime_overflow:
  "t < datetime_min \<or> datetime_max < t \<Longrightarrow> to_utc_datetime t = Inl OverflowError"
  by (auto simp: to_utc_datetime_def)

lemma process_Inr:
  assumes "to_utc_datetime (win_start w) = Inr s" and "to_utc_datetime (win_end w) = Inr e"
  shows "process L self now w (k, batch)
           = Inr (write_batch L (compression_method self) now (spec_path (output_gcs_directory self) s e k []) batch)"
  using assms by (simp add: process_def spec_path_def directive_def)

lemma process_Inl_start:
  "to_utc_datetime (win_start w) = Inl err \<Longrightarrow> process L self now w kv = Inl err"
  by (simp add: process_def)

lemma process_Inl_end:
  "to_utc_datetime (win_start w) = Inr s \<Longrightarrow> to_utc_datetime (win_end w) = Inl err
     \<Longrightarrow> process L self now w kv = Inl err"
  by (simp add: process_def)

lemma write_batch_gzip:
  "write_batch L ''gzip'' now fn batch
     = \<lparr>filename = fn @ ''.gz'', mime_type = ''application/gzip'',
        content = gzip_header L now @ gz_rest L (concat (map encode_line batch))\<rparr>"
  by (simp add: write_batch_def foldl_GzipFile_write GzipFile_close_def)

lemma write_batch_deflate:
  "write_batch L ''deflate'' now fn batch
     = \<lparr>filename = fn @ ''.zlib'', mime_type = ''application/zlib'',
        content = zlib_compress L (concat (map encode_line batch))\<rparr>"
  by (simp add: write_batch_def)

lemma write_batch_bz2:
  "write_batch L ''bz2'' now fn batch
     = \<lparr>filename = fn @ ''.bz2'', mime_type = ''application/x-bzip2'',
        content = bz2_compress L (concat (map encode_line batch))\<rparr>"
  by (simp add: write_batch_def)

lemma write_batch_other:
  assumes "m \<noteq> ''gzip''" and "m \<noteq> ''deflate''" and "m \<noteq> ''bz2''"
  shows "write_batch L m now fn batch
           = \<lparr>filename = fn, mime_type = ''application/json'', content = concat (map encode_line batch)\<rparr>"
  using assms by (simp add: write_batch_def foldl_append_lines)

lemma spec_path_suffix: "spec_path dir s e k [] @ sfx = spec_path dir s e k sfx"
  by (simp add: spec_path_def)

text \<open>The first minute of 1970, the window of the examples.\<close>

lemma epoch_datetime:
  "to_utc_datetime 0
     = Inr \<lparr>year = 1970, month = 1, day = 1, hour = 0, minute = 0, second = 0, microsecond = 0\<rparr>"
  by code_simp

lemma epoch_minute_datetime:
  "to_utc_datetime 60000000
     = Inr \<lparr>year = 1970, month = 1, day = 1, hour = 0, minute = 1, second = 0, microsecond = 0\<rparr>"
  by code_simp

lemma epoch_window_start:
  "to_utc_datetime (win_start \<lparr>win_start = 0, win_end = 60000000\<rparr>)
     = Inr \<lparr>year = 1970, month = 1, day = 1, hour = 0, minute = 0, second = 0, microsecond = 0\<rparr>"
  by (simp add: epoch_datetime)

lemma epoch_window_end:
  "to_utc_datetime (win_end \<lparr>win_start = 0, win_end = 60000000\<rparr>)
     = Inr \<lparr>year = 1970, month = 1, day = 1, hour = 0, minute = 1, second = 0, microsecond = 0\<rparr>"
  by (simp add: epoch_minute_datetime)

text \<open>
  C6: for every batch, each compression method gets its path suffix and content type:
  gzip ends the path with \<^verbatim>\<open>.json.gz\<close>, with \<^verbatim>\<open>application/gzip\<close> and one gzip member
  for the whole batch; deflate \<^verbatim>\<open>.json.zlib\<close> and \<^verbatim>\<open>application/zlib\<close>; bz2
  \<^verbatim>\<open>.json.bz2\<close> and \<^verbatim>\<open>application/x-bzip2\<close>; uncompressed \<^verbatim>\<open>.json\<close> and
  \<^verbatim>\<open>application/json\<close>. The window's bounds are dates \<^verbatim>\<open>datetime\<close> can hold.
\<close>

theorem dispatch_table:
  assumes "to_utc_datetime (win_start w) = Inr s" and "to_utc_datetime (win_end w) = Inr e"
  shows "process L \<lparr>output_gcs_directory = dir, compression_method = ''gzip''\<rparr> now w (k, batch)
           = Inr \<lparr>filename = spec_path dir s e k ''.gz'', mime_type = ''application/gzip'',
                  content = gzip_header L now @ gz_rest L (concat (map encode_line batch))\<rparr>
       \<and> process L \<lparr>output_gcs_directory = dir, compression_method = ''deflate''\<rparr> now w (k, batch)
           = Inr \<lparr>filename = spec_path dir s e k ''.zlib'', mime_type = ''application/zlib'',
                  content = zlib_compress L (concat (map encode_line batch))\<rparr>
       \<and> process L \<lparr>output_gcs_directory = dir, compression_method = ''bz2''\<rparr> now w (k, batch)
           = Inr \<lparr>filename = spec_path dir s e k ''.bz2'', mime_type = ''application/x-bzip2'',
                  content = bz2_compress L (concat (map encode_line batch))\<rparr>
       \<and> process L \<lparr>output_gcs_directory = dir, compression_method = ''uncompressed''\<rparr> now w (k, batch)
           = Inr \<lparr>filename = spec_path dir s e k [], mime_type = ''application/json'',
                  content = concat (map encode_line batch)\<rparr>"
  using assms
  by (simp add: process_Inr write_batch_gzip write_batch_deflate write_batch_bz2 write_batch_other
        spec_path_suffix)

theorem dispatch_table_witness:
  "process stored \<lparr>output_gcs_directory = ''gs://b/d'', compression_method = ''gzip''\<rparr> 5
      \<lparr>win_start = 0, win_end = 60000000\<rparr> (0, [''a'', ''b''])
    = Inr \<lparr>filename = ''gs://b/d/1970/01/01/logs-00:00-00:01-0.json.gz'', mime_type = ''application/gzip'',
           content = [CHR 0x1F, CHR 0x8B, CHR 0x08, CHR 0x00, CHR 0x05, CHR 0x00, CHR 0x00, CHR 0x00,
                      CHR ''a'', CHR 0x0A, CHR ''b'', CHR 0x0A]\<rparr>"
proof -
  have p: "spec_path ''gs://b/d''
             \<lparr>year = 1970, month = 1, day = 1, hour = 0, minute = 0, second = 0, microsecond = 0\<rparr>
             \<lparr>year = 1970, month = 1, day = 1, hour = 0, minute = 1, second = 0, microsecond = 0\<rparr> 0 ''.gz''
           = ''gs://b/d/1970/01/01/logs-00:00-00:01-0.json.gz''"
    by code_simp
  have c: "gzip_header stored 5 @ gz_rest stored (concat (map encode_line [''a'', ''b'']))
           = [CHR 0x1F, CHR 0x8B, CHR 0x08, CHR 0x00, CHR 0x05, CHR 0x00, CHR 0x00, CHR 0x00,
              CHR ''a'', CHR 0x0A, CHR ''b'', CHR 0x0A]"
    by code_simp
  note d = dispatch_table [OF epoch_window_start epoch_window_end, of stored "''gs://b/d''" 5 0 "[''a'', ''b'']",
      THEN conjunct1]
  show ?thesis
    unfolding d p c ..
qed

text \<open>
  C10: a compression method that is none of \<^verbatim>\<open>gzip\<close>, \<^verbatim>\<open>deflate\<close> and \<^verbatim>\<open>bz2\<close>
  is handled exactly as \<^verbatim>\<open>uncompressed\<close>: every record is written as its body and a
  newline, the path ends with \<^verbatim>\<open>.json\<close>, the content type is \<^verbatim>\<open>application/json\<close>,
  and the method raises no error (the only errors are those of the window's dates, whatever
  the method).
\<close>

theorem unknown_method_as_uncompressed:
  assumes "m \<noteq> ''gzip''" and "m \<noteq> ''deflate''" and "m \<noteq> ''bz2''"
  shows "process L \<lparr>output_gcs_directory = dir, compression_method = m\<rparr> now w (k, batch)
           = process L \<lparr>output_gcs_directory = dir, compression_method = ''uncompressed''\<rparr> now w (k, batch)
       \<and> process L \<lparr>output_gcs_directory = dir, compression_method = m\<rparr> now w (k, batch)
           = (case to_utc_datetime (win_start w) of
                Inl err \<Rightarrow> Inl err
              | Inr s \<Rightarrow>
                  (case to_utc_datetime (win_end w) of
                     Inl err \<Rightarrow> Inl err
                   | Inr e \<Rightarrow>
                       Inr \<lparr>filename = spec_path dir s e k [], mime_type = ''application/json'',
                             content = concat (map encode_line batch)\<rparr>))"
  using assms
  by (simp add: process_Inr process_Inl_start process_Inl_end write_batch_other split: sum.splits)

theorem unknown_method_as_uncompressed_witness:
  "''gzipp'' \<noteq> ''gzip'' \<and> ''gzipp'' \<noteq> ''deflate'' \<and> ''gzipp'' \<noteq> ''bz2''
   \<and> process stored \<lparr>output_gcs_directory = ''gs://b/d'', compression_method = ''gzipp''\<rparr> 5
        \<lparr>win_start = 0, win_end = 60000000\<rparr> (0, [''a'', ''b''])
      = Inr \<lparr>filename = ''gs://b/d/1970/01/01/logs-00:00-00:01-0.json'', mime_type = ''application/json'',
             content = [CHR ''a'', CHR 0x0A, CHR ''b'', CHR 0x0A]\<rparr>"
proof -
  have h: "''gzipp'' \<noteq> ''gzip''" "''gzipp'' \<noteq> ''deflate''" "''gzipp'' \<noteq> ''bz2''"
    by simp_all
  have p: "spec_path ''gs://b/d''
             \<lparr>year = 1970, month = 1, day = 1, hour = 0, minute = 0, second = 0, microsecond = 0\<rparr>
             \<lparr>year = 1970, month = 1, day = 1, hour = 0, minute = 1, second = 0, microsecond = 0\<rparr> 0 []
           = ''gs://b/d/1970/01/01/logs-00:00-00:01-0.json''"
    by code_simp
  have c: "concat (map encode_line [''a'', ''b'']) = [CHR ''a'', CHR 0x0A, CHR ''b'', CHR 0x0A]"
    by code_simp
  note d = unknown_method_as_uncompressed [OF h, of stored "''gs://b/d''" 5
      "\<lparr>win_start = 0, win_end = 60000000\<rparr>" 0 "[''a'', ''b'']", THEN conjunct2]
  show ?thesis
    unfolding d epoch_window_start epoch_window_end using h p c by simp
qed

section \<open>Retries\<close>

lemma process_InrD:
  assumes "process L self now w (k, batch) = Inr obj"
  shows "\<exists>s e. to_utc_datetime (win_start w) = Inr s \<and> to_utc_datetime (win_end w) = Inr e
           \<and> obj = write_batch L (compression_method self) now (spec_path (output_gcs_directory self) s e k []) batch"
proof (cases "to_utc_datetime (win_start w)")
  case (Inl err)
  with assms show ?thesis by (simp add: process_Inl_start)
next
  case s: (Inr s)
  show ?thesis
  proof (cases "to_utc_datetime (win_end w)")
    case (Inl err)
    with s assms show ?thesis by (simp add: process_Inl_end)
  next
    case (Inr e)
    with s assms show ?thesis by (simp add: process_Inr)
  qed
qed

lemma length_gzip_header: "length (gzip_header L now) = 8"
  by (simp add: gzip_header_def write32u_def)

lemma write_batch_filename: "filename (write_batch L m now1 fn batch) = filename (write_batch L m now2 fn batch)"
  by (simp add: write_batch_def)

lemma write_batch_mime_type: "mime_type (write_batch L m now1 fn batch) = mime_type (write_batch L m now2 fn batch)"
  by (simp add: write_batch_def)

lemma write_batch_content:
  "content (write_batch L m now fn batch)
     = (if m = ''gzip'' then gzip_header L now @ gz_rest L (concat (map encode_line batch))
        else if m = ''deflate'' then zlib_compress L (concat (map encode_line batch))
        else if m = ''bz2'' then bz2_compress L (concat (map encode_line batch))
        else concat (map encode_line batch))"
  by (simp add: write_batch_def foldl_append_lines foldl_GzipFile_write GzipFile_close_def)

lemma gzip_decompress_member:
  "gzip_decompress L (gzip_header L now @ body) = gz_unrest L body"
  by (simp add: gzip_decompress_def gzip_header_def write32u_def)

lemma gcs_write_twice: "filename o1 = filename o2 \<Longrightarrow> gcs_write (gcs_write store o1) o2 = gcs_write store o2"
  by (simp add: gcs_write_def)

lemma epoch_gzip_at_0: "process stored \<lparr>output_gcs_directory = ''gs://b/d'', compression_method = ''gzip''\<rparr> 0
      \<lparr>win_start = 0, win_end = 60000000\<rparr> (0, [''a''])
    = Inr \<lparr>filename = ''gs://b/d/1970/01/01/logs-00:00-00:01-0.json.gz'', mime_type = ''application/gzip'',
           content = [CHR 0x1F, CHR 0x8B, CHR 0x08, CHR 0x00, CHR 0x00, CHR 0x00, CHR 0x00, CHR 0x00,
                      CHR ''a'', CHR 0x0A]\<rparr>"
  by code_simp

lemma epoch_gzip_at_1: "process stored \<lparr>output_gcs_directory = ''gs://b/d'', compression_method = ''gzip''\<rparr> 1
      \<lparr>win_start = 0, win_end = 60000000\<rparr> (0, [''a''])
    = Inr \<lparr>filename = ''gs://b/d/1970/01/01/logs-00:00-00:01-0.json.gz'', mime_type = ''application/gzip'',
           content = [CHR 0x1F, CHR 0x8B, CHR 0x08, CHR 0x00, CHR 0x01, CHR 0x00, CHR 0x00, CHR 0x00,
                      CHR ''a'', CHR 0x0A]\<rparr>"
  by code_simp

text \<open>
  C3, as stated: two invocations of \<^verbatim>\<open>process\<close> on the same window, shard and batch
  give byte-for-byte identical contents for each of the four methods. It fails for gzip,
  whose header holds the time of the invocation: here the clock reads 0, then 1.
\<close>

theorem retry_gzip_counterexample:
  "process stored \<lparr>output_gcs_directory = ''gs://b/d'', compression_method = ''gzip''\<rparr> 0
      \<lparr>win_start = 0, win_end = 60000000\<rparr> (0, [''a''])
   \<noteq> process stored \<lparr>output_gcs_directory = ''gs://b/d'', compression_method = ''gzip''\<rparr> 1
      \<lparr>win_start = 0, win_end = 60000000\<rparr> (0, [''a''])"
  unfolding epoch_gzip_at_0 epoch_gzip_at_1 by simp

text \<open>
  C3, amended: two invocations of \<^verbatim>\<open>process\<close> on the same window, shard and batch
  give the same path and the same content type, and for deflate, bz2 and uncompressed
  the same bytes; for gzip the bytes are the same but for the header, which holds the
  clock of the second invocation, and both contents decompress alike. Writing the retry
  over the first attempt leaves the store as the retry alone would.
\<close>

theorem retry_overwrites:
  assumes "process L self now1 w (k, batch) = Inr o1" and "process L self now2 w (k, batch) = Inr o2"
  shows "filename o2 = filename o1 \<and> mime_type o2 = mime_type o1
       \<and> content o2 = (if compression_method self = ''gzip'' then gzip_header L now2 @ drop 8 (content o1)
                        else content o1)
       \<and> decompress L (compression_method self) (content o2) = decompress L (compression_method self) (content o1)
       \<and> gcs_write (gcs_write store o1) o2 = gcs_write store o2"
proof -
  from process_InrD [OF assms(1)] obtain s e where
    s: "to_utc_datetime (win_start w) = Inr s" and e: "to_utc_datetime (win_end w) = Inr e"
    and o1: "o1 = write_batch L (compression_method self) now1 (spec_path (output_gcs_directory self) s e k []) batch"
    by blast
  from assms(2) s e
  have o2: "o2 = write_batch L (compression_method self) now2 (spec_path (output_gcs_directory self) s e k []) batch"
    by (simp add: process_Inr)
  have f: "filename o2 = filename o1"
    unfolding o1 o2 by (rule write_batch_filename)
  have m: "mime_type o2 = mime_type o1"
    unfolding o1 o2 by (rule write_batch_mime_type)
  have c: "content o2 = (if compression_method self = ''gzip'' then gzip_header L now2 @ drop 8 (content o1)
                        else content o1)"
    unfolding o1 o2 by (simp add: write_batch_content length_gzip_header)
  have d: "decompress L (compression_method self) (content o2) = decompress L (compression_method self) (content o1)"
    unfolding o1 o2 by (simp add: write_batch_content decompress_def gzip_decompress_member)
  from f have g: "gcs_write (gcs_write store o1) o2 = gcs_write store o2"
    by (simp add: gcs_write_twice)
  from f m c d g show ?thesis by blast
qed

theorem retry_overwrites_witness:
  "process stored \<lparr>output_gcs_directory = ''gs://b/d'', compression_method = ''gzip''\<rparr> 0
      \<lparr>win_start = 0, win_end = 60000000\<rparr> (0, [''a''])
    = Inr \<lparr>filename = ''gs://b/d/1970/01/01/logs-00:00-00:01-0.json.gz'', mime_type = ''application/gzip'',
           content = [CHR 0x1F, CHR 0x8B, CHR 0x08, CHR 0x00, CHR 0x00, CHR 0x00, CHR 0x00, CHR 0x00,
                      CHR ''a'', CHR 0x0A]\<rparr>
   \<and> process stored \<lparr>output_gcs_directory = ''gs://b/d'', compression_method = ''gzip''\<rparr> 1
      \<lparr>win_start = 0, win_end = 60000000\<rparr> (0, [''a''])
    = Inr \<lparr>filename = ''gs://b/d/1970/01/01/logs-00:00-00:01-0.json.gz'', mime_type = ''application/gzip'',
           content = [CHR 0x1F, CHR 0x8B, CHR 0x08, CHR 0x00, CHR 0x01, CHR 0x00, CHR 0x00, CHR 0x00,
                      CHR ''a'', CHR 0x0A]\<rparr>
   \<and> gcs_write (gcs_write Map.empty
         \<lparr>filename = ''gs://b/d/1970/01/01/logs-00:00-00:01-0.json.gz'', mime_type = ''application/gzip'',
           content = [CHR 0x1F, CHR 0x8B, CHR 0x08, CHR 0x00, CHR 0x00, CHR 0x00, CHR 0x00, CHR 0x00,
                      CHR ''a'', CHR 0x0A]\<rparr>)
         \<lparr>filename = ''gs://b/d/1970/01/01/logs-00:00-00:01-0.json.gz'', mime_type = ''application/gzip'',
           content = [CHR 0x1F, CHR 0x8B, CHR 0x08, CHR 0x00, CHR 0x01, CHR 0x00, CHR 0x00, CHR 0x00,
                      CHR ''a'', CHR 0x0A]\<rparr>
     = gcs_write Map.empty
         \<lparr>filename = ''gs://b/d/1970/01/01/logs-00:00-00:01-0.json.gz'', mime_type = ''application/gzip'',
           content = [CHR 0x1F, CHR 0x8B, CHR 0x08, CHR 0x00, CHR 0x01, CHR 0x00, CHR 0x00, CHR 0x00,
                      CHR ''a'', CHR 0x0A]\<rparr>"
  using retry_overwrites [OF epoch_gzip_at_0 epoch_gzip_at_1, of Map.empty] epoch_gzip_at_0 epoch_gzip_at_1 by blast

section \<open>Reading a batch back\<close>

lemma split_acc_line:
  "newline \<notin> set body \<Longrightarrow> split_acc acc (body @ newline # rest) = (rev acc @ body) # split_acc [] rest"
  by (induction body arbitrary: acc) auto

lemma split_lines_encoded:
  "\<forall>body \<in> set batch. newline \<notin> set body \<Longrightarrow> split_lines (concat (map encode_line batch)) = batch"
proof (induction batch)
  case Nil
  show ?case by (simp add: split_lines_def)
next
  case (Cons body batch)
  then have nl: "newline \<notin> set body" and ih: "split_acc [] (concat (map encode_line batch)) = batch"
    by (simp_all add: split_lines_def)
  have "concat (map encode_line (body # batch)) = body @ newline # concat (map encode_line batch)"
    by (simp add: encode_line_def)
  then have "split_lines (concat (map encode_line (body # batch)))
               = split_acc [] (body @ newline # concat (map encode_line batch))"
    by (simp only: split_lines_def)
  also have "\<dots> = (rev [] @ body) # split_acc [] (concat (map encode_line batch))"
    using nl by (rule split_acc_line)
  also have "\<dots> = body # batch"
    by (simp only: ih rev.simps append_Nil)
  finally show ?case .
qed

lemma epoch_body_with_newline: "process stored \<lparr>output_gcs_directory = ''gs://b/d'', compression_method = ''uncompressed''\<rparr> 0
      \<lparr>win_start = 0, win_end = 60000000\<rparr> (0, [[CHR ''a'', CHR 0x0A, CHR ''b'']])
    = Inr \<lparr>filename = ''gs://b/d/1970/01/01/logs-00:00-00:01-0.json'', mime_type = ''application/json'',
           content = [CHR ''a'', CHR 0x0A, CHR ''b'', CHR 0x0A]\<rparr>"
  by code_simp

text \<open>
  C2, as stated: for every batch, decompressing the object and splitting on newlines
  gives back the record bodies. It fails for a body that holds a newline: the batch of
  the one body \<^verbatim>\<open>a\nb\<close> is read back as the two bodies \<^verbatim>\<open>a\<close> and \<^verbatim>\<open>b\<close>.
\<close>

theorem round_trip_counterexample:
  "process stored \<lparr>output_gcs_directory = ''gs://b/d'', compression_method = ''uncompressed''\<rparr> 0
      \<lparr>win_start = 0, win_end = 60000000\<rparr> (0, [[CHR ''a'', CHR 0x0A, CHR ''b'']])
    = Inr \<lparr>filename = ''gs://b/d/1970/01/01/logs-00:00-00:01-0.json'', mime_type = ''application/json'',
           content = [CHR ''a'', CHR 0x0A, CHR ''b'', CHR 0x0A]\<rparr>
   \<and> decompress stored ''uncompressed'' [CHR ''a'', CHR 0x0A, CHR ''b'', CHR 0x0A]
        = Some [CHR ''a'', CHR 0x0A, CHR ''b'', CHR 0x0A]
   \<and> split_lines [CHR ''a'', CHR 0x0A, CHR ''b'', CHR 0x0A] = [''a'', ''b'']
   \<and> [''a'', ''b''] \<noteq> [[CHR ''a'', CHR 0x0A, CHR ''b'']]"
proof -
  have "decompress stored ''uncompressed'' [CHR ''a'', CHR 0x0A, CHR ''b'', CHR 0x0A]
        = Some [CHR ''a'', CHR 0x0A, CHR ''b'', CHR 0x0A]"
    by (simp add: decompress_def)
  moreover have "split_lines [CHR ''a'', CHR 0x0A, CHR ''b'', CHR 0x0A] = [''a'', ''b'']"
    by (simp add: split_lines_def newline_def)
  ultimately show ?thesis using epoch_body_with_newline by simp
qed

lemma lossless_stored: "lossless stored"
  by (simp add: lossless_def stored_def)

lemma epoch_gzip_two_lines: "process stored \<lparr>output_gcs_directory = ''gs://b/d'', compression_method = ''gzip''\<rparr> 5
      \<lparr>win_start = 0, win_end = 60000000\<rparr> (0, [''a'', ''b''])
    = Inr \<lparr>filename = ''gs://b/d/1970/01/01/logs-00:00-00:01-0.json.gz'', mime_type = ''application/gzip'',
           content = [CHR 0x1F, CHR 0x8B, CHR 0x08, CHR 0x00, CHR 0x05, CHR 0x00, CHR 0x00, CHR 0x00,
                      CHR ''a'', CHR 0x0A, CHR ''b'', CHR 0x0A]\<rparr>"
  by code_simp

text \<open>
  C2, amended: for every compression method and every batch whose record bodies hold no
  newline, decompressing the bytes \<^verbatim>\<open>process\<close> writes with the corresponding
  algorithm (the identity for uncompressed) gives the bodies, each followed by a newline,
  in the order of the batch, and splitting that on newlines gives back the batch. The
  decompressors undo the library's compressors.
\<close>

theorem round_trip:
  assumes "lossless L" and "\<forall>body \<in> set batch. newline \<notin> set body"
    and "process L \<lparr>output_gcs_directory = dir, compression_method = m\<rparr> now w (k, batch) = Inr obj"
  shows "decompress L m (content obj) = Some (concat (map encode_line batch))
       \<and> split_lines (concat (map encode_line batch)) = batch"
proof -
  from process_InrD [OF assms(3)] obtain fn where obj: "obj = write_batch L m now fn batch"
    by auto
  from assms(1) have "decompress L m (content obj) = Some (concat (map encode_line batch))"
    unfolding obj by (simp add: write_batch_content decompress_def gzip_decompress_member lossless_def)
  with split_lines_encoded [OF assms(2)] show ?thesis by simp
qed

theorem round_trip_witness:
  "lossless stored \<and> newline \<notin> set ''a'' \<and> newline \<notin> set ''b''
   \<and> process stored \<lparr>output_gcs_directory = ''gs://b/d'', compression_method = ''gzip''\<rparr> 5
      \<lparr>win_start = 0, win_end = 60000000\<rparr> (0, [''a'', ''b''])
    = Inr \<lparr>filename = ''gs://b/d/1970/01/01/logs-00:00-00:01-0.json.gz'', mime_type = ''application/gzip'',
           content = [CHR 0x1F, CHR 0x8B, CHR 0x08, CHR 0x00, CHR 0x05, CHR 0x00, CHR 0x00, CHR 0x00,
                      CHR ''a'', CHR 0x0A, CHR ''b'', CHR 0x0A]\<rparr>
   \<and> decompress stored ''gzip'' [CHR 0x1F, CHR 0x8B, CHR 0x08, CHR 0x00, CHR 0x05, CHR 0x00, CHR 0x00, CHR 0x00,
                      CHR ''a'', CHR 0x0A, CHR ''b'', CHR 0x0A] = Some (concat (map encode_line [''a'', ''b'']))
   \<and> split_lines (concat (map encode_line [''a'', ''b''])) = [''a'', ''b'']"
proof -
  have n: "\<forall>body \<in> set [''a'', ''b'']. newline \<notin> set body"
    by (simp add: newline_def)
  from round_trip [OF lossless_stored n epoch_gzip_two_lines] lossless_stored n epoch_gzip_two_lines show ?thesis
    by simp
qed

section \<open>The window assigner\<close>

lemma div_unique_tile:
  fixes sz k t :: int
  assumes "0 < sz" and "k * sz \<le> t" and "t < k * sz + sz"
  shows "k = t div sz"
proof -
  define r where "r = t - k * sz"
  from assms have r: "0 \<le> r" "r < sz"
    by (simp_all add: r_def)
  have "t = r + k * sz"
    by (simp add: r_def)
  then have "t div sz = (r + k * sz) div sz"
    by simp
  also from assms(1) have "\<dots> = k + r div sz"
    by simp
  also from r have "r div sz = 0"
    by simp
  finally show ?thesis by simp
qed

lemma div_tile_bounds:
  fixes sz t :: int
  assumes "0 < sz"
  shows "(t div sz) * sz \<le> t" and "t < (t div sz) * sz + sz"
proof -
  have e: "(t div sz) * sz + t mod sz = t"
    by (simp add: mult.commute)
  from assms have "0 \<le> t mod sz" and "t mod sz < sz"
    by simp_all
  with e show "(t div sz) * sz \<le> t" and "t < (t div sz) * sz + sz"
    by linarith+
qed

lemma tile_contains_iff:
  assumes "0 < sz"
  shows "contains (tile sz k) t \<longleftrightarrow> k = t div sz"
proof
  assume "contains (tile sz k) t"
  then have "k * sz \<le> t" and "t < k * sz + sz"
    by (simp_all add: contains_def tile_def)
  with assms show "k = t div sz"
    by (rule div_unique_tile)
next
  assume "k = t div sz"
  with div_tile_bounds [OF assms, of t] show "contains (tile sz k) t"
    by (simp add: contains_def tile_def)
qed

text \<open>
  C7: for every timestamp \<^verbatim>\<open>t\<close> and every positive \<^verbatim>\<open>window_size_sec\<close>, the window
  of \<^verbatim>\<open>t\<close> is \<^verbatim>\<open>[floor(t/size)*size, floor(t/size)*size + size)\<close>, a function of
  \<^verbatim>\<open>t\<close> and the size alone; it contains \<^verbatim>\<open>t\<close>, it is the only window of the
  tiling that does, and two windows of the tiling share a timestamp only if they are the
  same window.
\<close>

theorem window_assignment:
  assumes "0 < window_size_sec"
  shows "\<exists>sz. FixedWindows window_size_sec = Inr sz \<and> sz = window_size_sec * 1000000
          \<and> assign sz t = \<lparr>win_start = (t div sz) * sz, win_end = (t div sz) * sz + sz\<rparr>
          \<and> contains (assign sz t) t
          \<and> (\<forall>k. contains (tile sz k) t \<longleftrightarrow> tile sz k = assign sz t)
          \<and> (\<forall>j k. (\<exists>u. contains (tile sz j) u \<and> contains (tile sz k) u) \<longleftrightarrow> j = k)
          \<and> map elem_window (WindowInto sz pcoll) = map (\<lambda>e. Some (assign sz (elem_timestamp e))) pcoll"
proof -
  define sz where "sz = window_size_sec * 1000000"
  with assms have pos: "0 < sz" by simp
  from assms have f: "FixedWindows window_size_sec = Inr sz"
    by (simp add: FixedWindows_def sz_def)
  have a: "assign sz t = tile sz (t div sz)"
    by (simp add: assign_def tile_def)
  have inj: "tile sz j = tile sz k \<longleftrightarrow> j = k" for j k
    using pos by (auto simp: tile_def)
  have c: "contains (assign sz t) t"
    unfolding a by (simp add: tile_contains_iff [OF pos])
  have u: "contains (tile sz k) t \<longleftrightarrow> tile sz k = assign sz t" for k
    unfolding a inj by (rule tile_contains_iff [OF pos])
  have d: "(\<exists>u. contains (tile sz j) u \<and> contains (tile sz k) u) \<longleftrightarrow> j = k" for j k
  proof
    assume "\<exists>u. contains (tile sz j) u \<and> contains (tile sz k) u"
    then show "j = k" by (auto simp: tile_contains_iff [OF pos])
  next
    assume "j = k"
    moreover have "contains (tile sz k) (k * sz)"
      using pos by (simp add: contains_def tile_def)
    ultimately show "\<exists>u. contains (tile sz j) u \<and> contains (tile sz k) u" by blast
  qed
  have w: "map elem_window (WindowInto sz pcoll) = map (\<lambda>e. Some (assign sz (elem_timestamp e))) pcoll"
    by (simp add: WindowInto_def)
  from f a c u d w show ?thesis
    by (auto simp: sz_def assign_def)
qed

theorem window_assignment_witness:
  "(0::int) < 60 \<and> FixedWindows 60 = Inr 60000000
   \<and> assign 60000000 1709210096123456 = \<lparr>win_start = 1709210040000000, win_end = 1709210100000000\<rparr>
   \<and> contains (assign 60000000 1709210096123456) 1709210096123456
   \<and> tile 60000000 28486834 = assign 60000000 1709210096123456"
proof -
  have h: "(0::int) < 60" by simp
  from window_assignment [OF h, of 1709210096123456 "[]"] show ?thesis
    by (simp add: assign_def tile_def FixedWindows_def contains_def)
qed

section \<open>The shard key generator\<close>

lemma add_key_positive:
  assumes "0 < num_shards self"
  shows "add_key self r x = Inr (r mod num_shards self)"
  using assms by (simp add: add_key_def randint_def)

lemma WithKeys_positive:
  assumes "0 < num_shards self"
  shows "WithKeys (add_key self) rng i pcoll
           = Inr (map (\<lambda>(j, e). \<lparr>elem_value = (rng j mod num_shards self, elem_value e),
                                  elem_timestamp = elem_timestamp e, elem_window = elem_window e\<rparr>)
                   (zip [i..<i + length pcoll] pcoll))"
proof (induction pcoll arbitrary: i)
  case Nil
  show ?case by simp
next
  case (Cons e es)
  have "[i..<i + length (e # es)] = i # [Suc i..<Suc i + length es]"
    by (subst upt_rec) simp
  with Cons [of "Suc i"] assms show ?case
    by (simp add: add_key_positive)
qed

lemma WithKeys_one_shard:
  "WithKeys (add_key \<lparr>window_size = ws, num_shards = 1\<rparr>) rng i pcoll
     = Inr (map (\<lambda>e. \<lparr>elem_value = (0, elem_value e), elem_timestamp = elem_timestamp e,
                           elem_window = elem_window e\<rparr>) pcoll)"
  by (induction pcoll arbitrary: i) (simp_all add: add_key_def randint_def)

lemma map_zip_snd: "length xs = length ys \<Longrightarrow> map (\<lambda>p. f (snd p)) (zip xs ys) = map f ys"
  by (induction xs ys rule: list_induct2) simp_all

lemma map_zip_fst: "length xs = length ys \<Longrightarrow> map (\<lambda>p. f (fst p)) (zip xs ys) = map f xs"
  by (induction xs ys rule: list_induct2) simp_all

text \<open>
  C8: for every positive \<^verbatim>\<open>num_shards\<close> the key step never fails; every key is in
  \<^verbatim>\<open>[0, num_shards)\<close>; the values pass unchanged and the keys do not depend on them;
  with one shard every key is 0.
\<close>

theorem shard_key_in_range:
  assumes "0 < num_shards self"
  shows "\<exists>keyed. WithKeys (add_key self) rng i pcoll = Inr keyed
          \<and> map (\<lambda>e. snd (elem_value e)) keyed = map elem_value pcoll
          \<and> map (\<lambda>e. fst (elem_value e)) keyed = map (\<lambda>j. rng j mod num_shards self) [i..<i + length pcoll]
          \<and> (\<forall>e \<in> set keyed. 0 \<le> fst (elem_value e) \<and> fst (elem_value e) < num_shards self)
          \<and> add_key self r x = add_key self r y
          \<and> WithKeys (add_key \<lparr>window_size = ws, num_shards = 1\<rparr>) rng i pcoll
              = Inr (map (\<lambda>e. \<lparr>elem_value = (0, elem_value e), elem_timestamp = elem_timestamp e,
                                    elem_window = elem_window e\<rparr>) pcoll)"
proof -
  let ?keyed = "map (\<lambda>(j, e). \<lparr>elem_value = (rng j mod num_shards self, elem_value e),
                                  elem_timestamp = elem_timestamp e, elem_window = elem_window e\<rparr>)
                   (zip [i..<i + length pcoll] pcoll)"
  have k: "WithKeys (add_key self) rng i pcoll = Inr ?keyed"
    using assms by (rule WithKeys_positive)
  have l: "length [i..<i + length pcoll] = length pcoll"
    by simp
  have v: "map (\<lambda>e. snd (elem_value e)) ?keyed = map elem_value pcoll"
    using map_zip_snd [OF l, of elem_value] by (simp add: case_prod_unfold comp_def)
  have f: "map (\<lambda>e. fst (elem_value e)) ?keyed
             = map (\<lambda>j. rng j mod num_shards self) [i..<i + length pcoll]"
    using map_zip_fst [OF l, of "\<lambda>j. rng j mod num_shards self"] by (simp add: case_prod_unfold comp_def)
  have b: "\<forall>e \<in> set ?keyed. 0 \<le> fst (elem_value e) \<and> fst (elem_value e) < num_shards self"
    using assms by (auto simp: case_prod_unfold)
  have d: "add_key self r x = add_key self r y"
    by (simp add: add_key_def)
  have o: "WithKeys (add_key \<lparr>window_size = ws, num_shards = 1\<rparr>) rng i pcoll
              = Inr (map (\<lambda>e. \<lparr>elem_value = (0, elem_value e), elem_timestamp = elem_timestamp e,
                                    elem_window = elem_window e\<rparr>) pcoll)"
    by (rule WithKeys_one_shard)
  from k v f b d o show ?thesis by blast
qed

theorem shard_key_in_range_witness:
  "(0::int) < 5
   \<and> WithKeys (add_key \<lparr>window_size = 60, num_shards = 5\<rparr>) (\<lambda>i. 7 * int i + 3) 0
       [\<lparr>elem_value = ''a'', elem_timestamp = 0, elem_window = None\<rparr>,
        \<lparr>elem_value = ''b'', elem_timestamp = 1, elem_window = None\<rparr>]
     = Inr [\<lparr>elem_value = (3, ''a''), elem_timestamp = 0, elem_window = None\<rparr>,
            \<lparr>elem_value = (0, ''b''), elem_timestamp = 1, elem_window = None\<rparr>]"
proof -
  have h: "0 < num_shards \<lparr>window_size = 60, num_shards = 5\<rparr>" by simp
  have e: "WithKeys (add_key \<lparr>window_size = 60, num_shards = 5\<rparr>) (\<lambda>i. 7 * int i + 3) 0
       [\<lparr>elem_value = ''a'', elem_timestamp = 0, elem_window = None\<rparr>,
        \<lparr>elem_value = ''b'', elem_timestamp = 1, elem_window = None\<rparr>]
     = Inr [\<lparr>elem_value = (3, ''a''), elem_timestamp = 0, elem_window = None\<rparr>,
            \<lparr>elem_value = (0, ''b''), elem_timestamp = 1, elem_window = None\<rparr>]"
    by (simp add: add_key_def randint_def)
  from shard_key_in_range [OF h, of "\<lambda>i. 7 * int i + 3" 0
      "[\<lparr>elem_value = ''a'', elem_timestamp = 0, elem_window = None\<rparr>,
        \<lparr>elem_value = ''b'', elem_timestamp = 1, elem_window = None\<rparr>]"] e
  show ?thesis by simp
qed

section \<open>One window, one shard, three messages\<close>

lemma decode_ascii_abc: "decode ''a'' = Inr ''a''" "decode ''b'' = Inr ''b''" "decode ''c'' = Inr ''c''"
  by (simp_all add: decode_def in_range_def)

lemma assign_div: "t div sz = n \<Longrightarrow> assign sz t = \<lparr>win_start = n * sz, win_end = n * sz + sz\<rparr>"
  by (simp add: assign_def)

lemma expand_abc:
  assumes "t1 div 60000000 = n" and "t2 div 60000000 = n" and "t3 div 60000000 = n"
  shows "expand \<lparr>window_size = 60, num_shards = 1\<rparr> rng (ReadFromPubSub [(''a'', t1), (''b'', t2), (''c'', t3)])
           = Inr [(Some \<lparr>win_start = n * 60000000, win_end = n * 60000000 + 60000000\<rparr>, 0, [''a'', ''b'', ''c''])]"
  using assms
  by (simp add: expand_def FixedWindows_def ReadFromPubSub_def WindowInto_def decode_ascii_abc assign_div
        add_key_def randint_def group_key_def)

text \<open>
  C9: with a window of 60 seconds, one shard and no compression, the messages
  \<^verbatim>\<open>a\<close>, \<^verbatim>\<open>b\<close>, \<^verbatim>\<open>c\<close> with event times in one window give exactly one object;
  its path is \<^verbatim>\<open>{output_directory}/{YYYY}/{MM}/{DD}/logs-{HH:MM}-{HH:MM}-0.json\<close>, with the
  date of the window's start, and its contents are the bytes \<^verbatim>\<open>a\nb\nc\n\<close>, in the order
  of arrival.
\<close>

theorem scenario_uncompressed:
  assumes "t1 div 60000000 = n" and "t2 div 60000000 = n" and "t3 div 60000000 = n"
    and "to_utc_datetime (n * 60000000) = Inr s" and "to_utc_datetime (n * 60000000 + 60000000) = Inr e"
  shows "run L rng clock [(''a'', t1), (''b'', t2), (''c'', t3)] output_directory ''uncompressed'' 60 1
           = Inr [\<lparr>filename = spec_path output_directory s e 0 [], mime_type = ''application/json'',
                   content = [CHR ''a'', CHR 0x0A, CHR ''b'', CHR 0x0A, CHR ''c'', CHR 0x0A]\<rparr>]"
proof -
  have w: "process L \<lparr>output_gcs_directory = output_directory, compression_method = ''uncompressed''\<rparr> (clock 0)
             \<lparr>win_start = n * 60000000, win_end = n * 60000000 + 60000000\<rparr> (0, [''a'', ''b'', ''c''])
           = Inr \<lparr>filename = spec_path output_directory s e 0 [], mime_type = ''application/json'',
                   content = [CHR ''a'', CHR 0x0A, CHR ''b'', CHR 0x0A, CHR ''c'', CHR 0x0A]\<rparr>"
    using assms(4,5) by (simp add: process_Inr write_batch_other encode_line_def newline_def)
  show ?thesis
    unfolding run_def expand_abc [OF assms(1-3)] by (simp add: w)
qed

theorem scenario_uncompressed_witness:
  "(1709210040000000::int) div 60000000 = 28486834 \<and> (1709210041000000::int) div 60000000 = 28486834
   \<and> (1709210099999999::int) div 60000000 = 28486834
   \<and> to_utc_datetime (28486834 * 60000000)
       = Inr \<lparr>year = 2024, month = 2, day = 29, hour = 12, minute = 34, second = 0, microsecond = 0\<rparr>
   \<and> to_utc_datetime (28486834 * 60000000 + 60000000)
       = Inr \<lparr>year = 2024, month = 2, day = 29, hour = 12, minute = 35, second = 0, microsecond = 0\<rparr>
   \<and> run stored (\<lambda>_. 0) (\<lambda>_. 0) [(''a'', 1709210040000000), (''b'', 1709210041000000), (''c'', 1709210099999999)]
         ''gs://b/d'' ''uncompressed'' 60 1
       = Inr [\<lparr>filename = ''gs://b/d/2024/02/29/logs-12:34-12:35-0.json'', mime_type = ''application/json'',
               content = [CHR ''a'', CHR 0x0A, CHR ''b'', CHR 0x0A, CHR ''c'', CHR 0x0A]\<rparr>]"
proof -
  have h1: "(1709210040000000::int) div 60000000 = 28486834"
    and h2: "(1709210041000000::int) div 60000000 = 28486834"
    and h3: "(1709210099999999::int) div 60000000 = 28486834"
    by simp_all
  have h4: "to_utc_datetime (28486834 * 60000000)
       = Inr \<lparr>year = 2024, month = 2, day = 29, hour = 12, minute = 34, second = 0, microsecond = 0\<rparr>"
    by code_simp
  have h5: "to_utc_datetime (28486834 * 60000000 + 60000000)
       = Inr \<lparr>year = 2024, month = 2, day = 29, hour = 12, minute = 35, second = 0, microsecond = 0\<rparr>"
    by code_simp
  have p: "spec_path ''gs://b/d''
             \<lparr>year = 2024, month = 2, day = 29, hour = 12, minute = 34, second = 0, microsecond = 0\<rparr>
             \<lparr>year = 2024, month = 2, day = 29, hour = 12, minute = 35, second = 0, microsecond = 0\<rparr> 0 []
           = ''gs://b/d/2024/02/29/logs-12:34-12:35-0.json''"
    by code_simp
  note r = scenario_uncompressed [OF h1 h2 h3 h4 h5, of stored "\<lambda>_. 0" "\<lambda>_. 0" "''gs://b/d''"]
  from h1 h2 h3 h4 h5 r [unfolded p] show ?thesis
    by blast
qed

section \<open>Errors of the configuration\<close>

lemma length_ParDo_DecodeMessage: "ParDo_DecodeMessage pcoll = Inr decoded \<Longrightarrow> length decoded = length pcoll"
  by (induction pcoll arbitrary: decoded) (auto split: sum.splits)

lemma WithKeys_no_shards:
  assumes "num_shards self \<le> 0"
  shows "WithKeys (add_key self) rng i (e # es) = Inl ValueError"
  using assms by (simp add: add_key_def randint_def)

lemma expand_startup:
  "window_size self \<le> 0 \<Longrightarrow> expand self rng pcoll = Inl (Startup ValueError)"
  by (simp add: expand_def FixedWindows_def)

lemma expand_not_startup:
  "0 < window_size self \<Longrightarrow> expand self rng pcoll \<noteq> Inl (Startup err)"
  by (simp add: expand_def FixedWindows_def split: sum.splits)

lemma expand_no_shards:
  assumes "0 < window_size self" and "num_shards self \<le> 0" and "pcoll \<noteq> []"
  shows "\<exists>err. expand self rng pcoll = Inl (PerRecord err)"
proof (cases "ParDo_DecodeMessage (WindowInto (window_size self * 1000000) pcoll)")
  case (Inl err)
  with assms(1) show ?thesis by (simp add: expand_def FixedWindows_def)
next
  case (Inr decoded)
  from length_ParDo_DecodeMessage [OF this] assms(3) have "decoded \<noteq> []"
    by (auto simp: WindowInto_def)
  then obtain e es where "decoded = e # es"
    by (cases decoded) auto
  with Inr assms(1) WithKeys_no_shards [OF assms(2), of rng 0 e es] show ?thesis
    by (simp add: expand_def FixedWindows_def del: WithKeys.simps)
qed

lemma process_other_method:
  assumes "m \<noteq> ''gzip''" and "m \<noteq> ''deflate''" and "m \<noteq> ''bz2''"
  shows "process L \<lparr>output_gcs_directory = dir, compression_method = m\<rparr> now w kv
           = process L \<lparr>output_gcs_directory = dir, compression_method = ''uncompressed''\<rparr> now w kv"
  using assms by (simp add: process_def Let_def write_batch_other split: sum.splits prod.splits)

lemma ParDo_WriteToGCS_other_method:
  assumes "m \<noteq> ''gzip''" and "m \<noteq> ''deflate''" and "m \<noteq> ''bz2''"
  shows "ParDo_WriteToGCS L \<lparr>output_gcs_directory = dir, compression_method = m\<rparr> clock i groups
           = ParDo_WriteToGCS L \<lparr>output_gcs_directory = dir, compression_method = ''uncompressed''\<rparr> clock i groups"
proof (induction groups arbitrary: i)
  case Nil
  show ?case by simp
next
  case (Cons g groups)
  obtain w kv where g: "g = (w, kv)" by (cases g)
  show ?case
    unfolding g by (simp add: Cons process_other_method [OF assms] split: option.splits sum.splits)
qed

lemma ParDo_DecodeMessage_valid:
  "\<forall>e \<in> set pcoll. utf8_valid (elem_value e) \<Longrightarrow> ParDo_DecodeMessage pcoll = Inr pcoll"
  by (induction pcoll) (simp_all add: decode_def)

lemma expand_no_shards_decodable:
  assumes "0 < window_size self" and "num_shards self \<le> 0" and "msgs \<noteq> []"
    and "\<forall>payload \<in> set (map fst msgs). utf8_valid payload"
  shows "expand self rng (ReadFromPubSub msgs) = Inl (PerRecord ValueError)"
proof -
  let ?pcoll = "WindowInto (window_size self * 1000000) (ReadFromPubSub msgs)"
  from assms(4) have "\<forall>e \<in> set ?pcoll. utf8_valid (elem_value e)"
    by (auto simp: WindowInto_def ReadFromPubSub_def)
  then have d: "ParDo_DecodeMessage ?pcoll = Inr ?pcoll"
    by (rule ParDo_DecodeMessage_valid)
  from assms(3) obtain e es where c: "?pcoll = e # es"
    by (cases ?pcoll) (auto simp: WindowInto_def ReadFromPubSub_def)
  have k: "WithKeys (add_key self) rng 0 ?pcoll = Inl ValueError"
    unfolding c using assms(2) by (rule WithKeys_no_shards)
  from assms(1) show ?thesis
    by (simp add: expand_def FixedWindows_def d k del: WithKeys.simps)
qed

text \<open>
  C4, as stated: \<^verbatim>\<open>run\<close> with a non-positive \<^verbatim>\<open>num_shards\<close> fails at startup, and no
  operation on a record is the first to fail. It does not: with no shard and one record
  the pipeline is built, and the first failure is \<^verbatim>\<open>random.randint\<close> on that record.
\<close>

theorem configuration_errors_counterexample:
  "run stored (\<lambda>_. 0) (\<lambda>_. 0) [(''a'', 0)] ''gs://b/d'' ''uncompressed'' 60 0 = Inl (PerRecord ValueError)"
  by code_simp

text \<open>
  C4, amended: a non-positive window size is detected before any record is processed,
  when \<^verbatim>\<open>run\<close> builds the pipeline. A non-positive \<^verbatim>\<open>num_shards\<close> is not: with a
  positive window size the pipeline is built, and once a record arrives the run fails on a
  record; when the payloads are well-formed UTF-8 the failure is the \<^verbatim>\<open>ValueError\<close> of
  \<^verbatim>\<open>random.randint\<close> in the shard key generation. An unknown compression method is an
  error of the command line only: the parser exits on it, and \<^verbatim>\<open>run\<close> itself treats
  it as \<^verbatim>\<open>uncompressed\<close>.
\<close>

theorem configuration_errors:
  "(window_interval_sec \<le> 0 \<longrightarrow>
      run L rng clock msgs dir m window_interval_sec n = Inl (Startup ValueError))
   \<and> (0 < window_interval_sec \<and> n \<le> 0 \<and> msgs \<noteq> [] \<longrightarrow>
      (\<exists>err. run L rng clock msgs dir m window_interval_sec n = Inl (PerRecord err)))
   \<and> (0 < window_interval_sec \<and> n \<le> 0 \<and> msgs \<noteq> [] \<and> (\<forall>payload \<in> set (map fst msgs). utf8_valid payload) \<longrightarrow>
      run L rng clock msgs dir m window_interval_sec n = Inl (PerRecord ValueError))
   \<and> (m \<notin> set choices \<longrightarrow>
      run L rng clock msgs dir m window_interval_sec n
        = run L rng clock msgs dir ''uncompressed'' window_interval_sec n
      \<and> main L rng clock msgs dir m window_interval_sec n = Inl (Startup SystemExit))"
proof (intro conjI impI)
  assume "window_interval_sec \<le> 0"
  then show "run L rng clock msgs dir m window_interval_sec n = Inl (Startup ValueError)"
    by (simp add: run_def expand_startup)
next
  assume "0 < window_interval_sec \<and> n \<le> 0 \<and> msgs \<noteq> []"
  then have "\<exists>err. expand \<lparr>window_size = window_interval_sec, num_shards = n\<rparr> rng (ReadFromPubSub msgs) = Inl (PerRecord err)"
    by (intro expand_no_shards) (simp_all add: ReadFromPubSub_def)
  then show "\<exists>err. run L rng clock msgs dir m window_interval_sec n = Inl (PerRecord err)"
    by (auto simp: run_def)
next
  assume "0 < window_interval_sec \<and> n \<le> 0 \<and> msgs \<noteq> [] \<and> (\<forall>payload \<in> set (map fst msgs). utf8_valid payload)"
  then have "expand \<lparr>window_size = window_interval_sec, num_shards = n\<rparr> rng (ReadFromPubSub msgs) = Inl (PerRecord ValueError)"
    by (intro expand_no_shards_decodable) simp_all
  then show "run L rng clock msgs dir m window_interval_sec n = Inl (PerRecord ValueError)"
    by (simp add: run_def)
next
  assume "m \<notin> set choices"
  then have "m \<noteq> ''gzip''" and "m \<noteq> ''deflate''" and "m \<noteq> ''bz2''"
    by (auto simp: choices_def)
  then have "ParDo_WriteToGCS L \<lparr>output_gcs_directory = dir, compression_method = m\<rparr> clock 0 groups
           = ParDo_WriteToGCS L \<lparr>output_gcs_directory = dir, compression_method = ''uncompressed''\<rparr> clock 0 groups"
    for groups
    by (rule ParDo_WriteToGCS_other_method)
  then show "run L rng clock msgs dir m window_interval_sec n
        = run L rng clock msgs dir ''uncompressed'' window_interval_sec n"
    by (simp add: run_def split: sum.splits)
next
  assume "m \<notin> set choices"
  then show "main L rng clock msgs dir m window_interval_sec n = Inl (Startup SystemExit)"
    by (simp add: main_def)
qed

theorem configuration_errors_witness:
  "run stored (\<lambda>_. 0) (\<lambda>_. 0) [(''a'', 0), (''b'', 1)] ''gs://b/d'' ''zip'' 0 5 = Inl (Startup ValueError)
   \<and> (\<exists>err. run stored (\<lambda>_. 0) (\<lambda>_. 0) [(''a'', 0), ([CHR 0xFF], 1)] ''gs://b/d'' ''zip'' 60 0 = Inl (PerRecord err))
   \<and> utf8_valid ''a'' \<and> utf8_valid ''b''
   \<and> run stored (\<lambda>_. 0) (\<lambda>_. 0) [(''a'', 0), (''b'', 1)] ''gs://b/d'' ''zip'' 60 0 = Inl (PerRecord ValueError)
   \<and> ''zip'' \<notin> set choices
   \<and> run stored (\<lambda>_. 0) (\<lambda>_. 0) [(''a'', 0), (''b'', 1)] ''gs://b/d'' ''zip'' 60 5
       = run stored (\<lambda>_. 0) (\<lambda>_. 0) [(''a'', 0), (''b'', 1)] ''gs://b/d'' ''uncompressed'' 60 5
   \<and> main stored (\<lambda>_. 0) (\<lambda>_. 0) [(''a'', 0), (''b'', 1)] ''gs://b/d'' ''zip'' 60 5 = Inl (Startup SystemExit)"
proof -
  have c: "''zip'' \<notin> set choices"
    by (simp add: choices_def)
  have v: "utf8_valid ''a''" "utf8_valid ''b''"
    by (simp_all add: in_range_def)
  from configuration_errors [of 0 stored "\<lambda>_. 0" "\<lambda>_. 0" "[(''a'', 0), (''b'', 1)]" "''gs://b/d''" "''zip''" 5]
  have a: "run stored (\<lambda>_. 0) (\<lambda>_. 0) [(''a'', 0), (''b'', 1)] ''gs://b/d'' ''zip'' 0 5 = Inl (Startup ValueError)"
    by simp
  from configuration_errors [of 60 stored "\<lambda>_. 0" "\<lambda>_. 0" "[(''a'', 0), ([CHR 0xFF], 1)]" "''gs://b/d''" "''zip''" 0]
  have b: "\<exists>err. run stored (\<lambda>_. 0) (\<lambda>_. 0) [(''a'', 0), ([CHR 0xFF], 1)] ''gs://b/d'' ''zip'' 60 0 = Inl (PerRecord err)"
    by simp
  from configuration_errors [of 60 stored "\<lambda>_. 0" "\<lambda>_. 0" "[(''a'', 0), (''b'', 1)]" "''gs://b/d''" "''zip''" 0] v
  have e: "run stored (\<lambda>_. 0) (\<lambda>_. 0) [(''a'', 0), (''b'', 1)] ''gs://b/d'' ''zip'' 60 0 = Inl (PerRecord ValueError)"
    by simp
  from configuration_errors [of 60 stored "\<lambda>_. 0" "\<lambda>_. 0" "[(''a'', 0), (''b'', 1)]" "''gs://b/d''" "''zip''" 5] c
  have d: "run stored (\<lambda>_. 0) (\<lambda>_. 0) [(''a'', 0), (''b'', 1)] ''gs://b/d'' ''zip'' 60 5
       = run stored (\<lambda>_. 0) (\<lambda>_. 0) [(''a'', 0), (''b'', 1)] ''gs://b/d'' ''uncompressed'' 60 5
   \<and> main stored (\<lambda>_. 0) (\<lambda>_. 0) [(''a'', 0), (''b'', 1)] ''gs://b/d'' ''zip'' 60 5 = Inl (Startup SystemExit)"
    by blast
  from a b v e c d show ?thesis by blast
qed

section \<open>The order of the stages\<close>

lemma decode_window_commute:
  "ParDo_DecodeMessage (WindowInto sz pcoll)
     = (case ParDo_DecodeMessage pcoll of Inl err \<Rightarrow> Inl err | Inr decoded \<Rightarrow> Inr (WindowInto sz decoded))"
  by (induction pcoll) (simp_all add: WindowInto_def split: sum.splits)

text \<open>
  C5, as stated: the pipeline is stage for stage the reference composition, in which
  every payload is decoded before it is put in a window. It is not: after the first stage
  of \<^verbatim>\<open>expand\<close> the payload is in its window, after the first stage of the reference
  it is in none.
\<close>

theorem stage_order_counterexample:
  "expand_trace 60000000 (ReadFromPubSub [(''a'', 0)])
     = [Inr [\<lparr>elem_value = ''a'', elem_timestamp = 0, elem_window = Some \<lparr>win_start = 0, win_end = 60000000\<rparr>\<rparr>],
        Inr [\<lparr>elem_value = ''a'', elem_timestamp = 0, elem_window = Some \<lparr>win_start = 0, win_end = 60000000\<rparr>\<rparr>]]
   \<and> reference_trace 60000000 (ReadFromPubSub [(''a'', 0)])
     = [Inr [\<lparr>elem_value = ''a'', elem_timestamp = 0, elem_window = None\<rparr>],
        Inr [\<lparr>elem_value = ''a'', elem_timestamp = 0, elem_window = Some \<lparr>win_start = 0, win_end = 60000000\<rparr>\<rparr>]]
   \<and> expand_trace 60000000 (ReadFromPubSub [(''a'', 0)]) \<noteq> reference_trace 60000000 (ReadFromPubSub [(''a'', 0)])"
  by (simp add: expand_trace_def reference_trace_def ReadFromPubSub_def WindowInto_def assign_def
        decode_def in_range_def)

text \<open>
  C5, amended: \<^verbatim>\<open>expand\<close> applies Window Assigner, Decoder, Shard Key Generator and
  Window Aggregator in this order, and \<^verbatim>\<open>run\<close> the encoder and writer after them: a
  payload is put in its window before it is decoded. The two stages commute, so the
  collection after both, the result of \<^verbatim>\<open>expand\<close> and the result of \<^verbatim>\<open>run\<close> are
  those of the reference composition.
\<close>

theorem stage_order:
  "expand_trace sz pcoll = [Inr (WindowInto sz pcoll), ParDo_DecodeMessage (WindowInto sz pcoll)]
   \<and> last (expand_trace sz pcoll) = last (reference_trace sz pcoll)
   \<and> expand self rng pcoll = reference_expand self rng pcoll
   \<and> run L rng clock msgs dir m window_interval_sec n
       = (case reference_expand \<lparr>window_size = window_interval_sec, num_shards = n\<rparr> rng (ReadFromPubSub msgs) of
            Inl f \<Rightarrow> Inl f
          | Inr groups \<Rightarrow>
              (case ParDo_WriteToGCS L \<lparr>output_gcs_directory = dir, compression_method = m\<rparr> clock 0 groups of
                 Inl err \<Rightarrow> Inl (PerBatch err)
               | Inr objs \<Rightarrow> Inr objs))"
proof -
  have t: "last (expand_trace sz pcoll) = last (reference_trace sz pcoll)"
    by (simp add: expand_trace_def reference_trace_def decode_window_commute)
  have e: "expand self' rng pcoll' = reference_expand self' rng pcoll'" for self' pcoll'
    by (simp add: expand_def reference_expand_def decode_window_commute split: sum.splits)
  have r: "run L rng clock msgs dir m window_interval_sec n
       = (case reference_expand \<lparr>window_size = window_interval_sec, num_shards = n\<rparr> rng (ReadFromPubSub msgs) of
            Inl f \<Rightarrow> Inl f
          | Inr groups \<Rightarrow>
              (case ParDo_WriteToGCS L \<lparr>output_gcs_directory = dir, compression_method = m\<rparr> clock 0 groups of
                 Inl err \<Rightarrow> Inl (PerBatch err)
               | Inr objs \<Rightarrow> Inr objs))"
    unfolding run_def e ..
  from t e r show ?thesis
    by (simp add: expand_trace_def)
qed

section \<open>Windows shorter than a minute\<close>

lemma civil_epoch: "civil_from_days 0 = (1970, 1, 1)"
  by code_simp

lemma first_minute_datetime:
  assumes "0 \<le> t" and "t < 60000000"
  shows "to_utc_datetime t
           = Inr \<lparr>year = 1970, month = 1, day = 1, hour = 0, minute = 0,
                  second = t div 1000000, microsecond = t mod 1000000\<rparr>"
proof -
  from assms have s: "0 \<le> t div 1000000" "t div 1000000 < 60"
    by simp_all
  then have d: "t div 1000000 div 86400 = 0" and m: "t div 1000000 mod 86400 = t div 1000000"
    by simp_all
  from s have h: "t div 1000000 div 3600 = 0" "t div 1000000 div 60 = 0" "t div 1000000 mod 60 = t div 1000000"
    by simp_all
  from assms have r: "\<not> (t < datetime_min \<or> datetime_max < t)"
    by (simp add: datetime_min_def datetime_max_def)
  show ?thesis
    unfolding to_utc_datetime_def Let_def d m h civil_epoch using r by simp
qed

text \<open>
  The first two windows of a run whose window is shorter than 30 seconds start and end in
  the minute 00:00 of 1970-01-01: one shard writes both to one path.
\<close>

lemma short_windows_share_a_path:
  assumes "0 < window_size_sec" and "window_size_sec < 30"
  shows "\<exists>sz obj1 obj2. FixedWindows window_size_sec = Inr sz
          \<and> assign sz 0 \<noteq> assign sz sz
          \<and> process L self now1 (assign sz 0) (k, batch1) = Inr obj1
          \<and> process L self now2 (assign sz sz) (k, batch2) = Inr obj2
          \<and> filename obj1 = filename obj2"
proof -
  define sz where "sz = window_size_sec * 1000000"
  from assms have b: "0 < sz" "2 * sz < 60000000"
    by (simp_all add: sz_def)
  have f: "FixedWindows window_size_sec = Inr sz"
    using assms by (simp add: FixedWindows_def sz_def)
  from b have w0: "assign sz 0 = \<lparr>win_start = 0, win_end = sz\<rparr>"
    by (simp add: assign_def)
  from b have w1: "assign sz sz = \<lparr>win_start = sz, win_end = sz + sz\<rparr>"
    by (simp add: assign_def)
  from b have ne: "assign sz 0 \<noteq> assign sz sz"
    by (simp add: w0 w1)
  let ?dt = "\<lambda>t. \<lparr>year = 1970, month = 1, day = 1, hour = 0, minute = 0,
                    second = t div 1000000, microsecond = t mod 1000000\<rparr>"
  have t0: "to_utc_datetime 0 = Inr (?dt 0)"
    by (rule first_minute_datetime) simp_all
  have t1: "to_utc_datetime sz = Inr (?dt sz)"
    using b by (intro first_minute_datetime) simp_all
  have t2: "to_utc_datetime (sz + sz) = Inr (?dt (sz + sz))"
    using b by (intro first_minute_datetime) simp_all
  have p1: "process L self now1 (assign sz 0) (k, batch1)
              = Inr (write_batch L (compression_method self) now1
                      (spec_path (output_gcs_directory self) (?dt 0) (?dt sz) k []) batch1)"
    unfolding w0 by (rule process_Inr) (simp_all only: interval_window.select_convs t0 t1)
  have p2: "process L self now2 (assign sz sz) (k, batch2)
              = Inr (write_batch L (compression_method self) now2
                      (spec_path (output_gcs_directory self) (?dt sz) (?dt (sz + sz)) k []) batch2)"
    unfolding w1 by (rule process_Inr) (simp_all only: interval_window.select_convs t1 t2)
  have "filename (write_batch L (compression_method self) now1
                      (spec_path (output_gcs_directory self) (?dt 0) (?dt sz) k []) batch1)
        = filename (write_batch L (compression_method self) now2
                      (spec_path (output_gcs_directory self) (?dt sz) (?dt (sz + sz)) k []) batch2)"
    by (simp add: write_batch_def spec_path_def)
  with f ne p1 p2 show ?thesis by blast
qed

lemma run_sub_minute:
  "run stored (\<lambda>_. 0) (\<lambda>_. 0) [(''a'', 0), (''b'', 10000000)] ''gs://b/d'' ''uncompressed'' 10 1
     = Inr [\<lparr>filename = ''gs://b/d/1970/01/01/logs-00:00-00:00-0.json'', mime_type = ''application/json'',
             content = [CHR ''a'', CHR 0x0A]\<rparr>,
            \<lparr>filename = ''gs://b/d/1970/01/01/logs-00:00-00:00-0.json'', mime_type = ''application/json'',
             content = [CHR ''b'', CHR 0x0A]\<rparr>]"
  by code_simp

text \<open>
  C1: the paths of distinct (window, shard) pairs of one run are distinct. With a window
  of 10 seconds they are not: the windows that start at 0 and at 10 seconds are distinct,
  both are written by shard 0 to \<^verbatim>\<open>logs-00:00-00:00-0.json\<close>, and the store is left with
  the second batch alone.
\<close>

theorem sub_minute_windows_collide:
  "assign 10000000 0 \<noteq> assign 10000000 10000000
   \<and> run stored (\<lambda>_. 0) (\<lambda>_. 0) [(''a'', 0), (''b'', 10000000)] ''gs://b/d'' ''uncompressed'' 10 1
     = Inr [\<lparr>filename = ''gs://b/d/1970/01/01/logs-00:00-00:00-0.json'', mime_type = ''application/json'',
             content = [CHR ''a'', CHR 0x0A]\<rparr>,
            \<lparr>filename = ''gs://b/d/1970/01/01/logs-00:00-00:00-0.json'', mime_type = ''application/json'',
             content = [CHR ''b'', CHR 0x0A]\<rparr>]
   \<and> foldl gcs_write Map.empty
        [\<lparr>filename = ''gs://b/d/1970/01/01/logs-00:00-00:00-0.json'', mime_type = ''application/json'',
             content = [CHR ''a'', CHR 0x0A]\<rparr>,
         \<lparr>filename = ''gs://b/d/1970/01/01/logs-00:00-00:00-0.json'', mime_type = ''application/json'',
             content = [CHR ''b'', CHR 0x0A]\<rparr>]
     = [''gs://b/d/1970/01/01/logs-00:00-00:00-0.json'' \<mapsto> (''application/json'', [CHR ''b'', CHR 0x0A])]"
proof -
  have "assign 10000000 0 \<noteq> assign 10000000 10000000"
    by (simp add: assign_def)
  moreover have "foldl gcs_write Map.empty
        [\<lparr>filename = ''gs://b/d/1970/01/01/logs-00:00-00:00-0.json'', mime_type = ''application/json'',
             content = [CHR ''a'', CHR 0x0A]\<rparr>,
         \<lparr>filename = ''gs://b/d/1970/01/01/logs-00:00-00:00-0.json'', mime_type = ''application/json'',
             content = [CHR ''b'', CHR 0x0A]\<rparr>]
     = [''gs://b/d/1970/01/01/logs-00:00-00:00-0.json'' \<mapsto> (''application/json'', [CHR ''b'', CHR 0x0A])]"
    by (simp add: gcs_write_def)
  ultimately show ?thesis
    using run_sub_minute by blast
qed

end
